theory Spec2Isabelle
  imports Main "HOL-Library.Log_Nat" "HOL-Library.Sublist"
begin

section \<open>Python values\<close>

text \<open>
  The builders of \<^verbatim>\<open>app/ui_specs.py\<close> return nested Python dictionaries that FastAPI
  serialises as JSON, and the handlers of \<^verbatim>\<open>app/main.py\<close> read such values from the
  upstream service with \<^verbatim>\<open>response.json()\<close>. A value is modelled by \<open>json\<close>:
  \<^item> a dictionary is an association list in insertion order (the order of the keys in
    the source's dictionary display); \<open>x.get(k, d)\<close> is \<open>dict_get\<close>;
  \<^item> a Python \<open>str\<close> is the \<open>string\<close> of its UTF-8 bytes, so the characters outside
    ASCII of the source (the icons, the dash, the arrow) are the byte sequences below;
  \<^item> a Python \<open>float\<close> inside a value read from upstream is carried as the text that
    \<open>repr\<close> prints for it (\<open>JFloat\<close>): the builders only copy such a value or print it.
\<close>

datatype json =
    JNull
  | JBool bool
  | JInt int
  | JFloat string
  | JStr string
  | JList "json list"
  | JObj "(string \<times> json) list"

definition dict_get :: "(string \<times> json) list \<Rightarrow> string \<Rightarrow> json \<Rightarrow> json" where
  "dict_get d k dflt = (case map_of d k of Some v \<Rightarrow> v | None \<Rightarrow> dflt)"

definition em_dash :: string where
  "em_dash = [CHR 0xE2, CHR 0x80, CHR 0x94]"

definition right_arrow :: string where
  "right_arrow = [CHR 0xE2, CHR 0x86, CHR 0x92]"

definition icon_users :: string where
  "icon_users = [CHR 0xF0, CHR 0x9F, CHR 0x91, CHR 0xA5]"

definition icon_check :: string where
  "icon_check = [CHR 0xE2, CHR 0x9C, CHR 0x93]"

definition icon_hourglass :: string where
  "icon_hourglass = [CHR 0xE2, CHR 0x8F, CHR 0xB3]"

definition icon_chart :: string where
  "icon_chart = [CHR 0xF0, CHR 0x9F, CHR 0x93, CHR 0x8A]"

subsection \<open>Exceptions\<close>

text \<open>
  Every exception of the modelled code is a value. \<open>HTTPException\<close> is FastAPI's (a
  status code and a detail), \<open>ResponseValidationError\<close> is what FastAPI raises for a
  returned value that does not fit the handler's declared return type; the others are
  raised by the code and reach the caller uncaught.
\<close>

datatype py_exception =
    HTTPException int json
  | ZeroDivisionError
  | OverflowError
  | ValueError
  | JSONDecodeError
  | AttributeError
  | ResponseValidationError
  | OtherException string

subsection \<open>\<open>str\<close> and \<open>repr\<close>\<close>

text \<open>
  An f-string \<^verbatim>\<open>f"...{x}..."\<close> inserts \<open>format(x, "")\<close>, which is \<open>str(x)\<close> for every
  value here. \<open>str\<close> of a string is the string; of any other value it is its \<open>repr\<close>.
  \<open>repr\<close> of a string quotes it (with \<open>"\<close> when the string has a \<open>'\<close> and no \<open>"\<close>) and
  escapes the backslash, the quote and the control characters. Bytes from \<open>0x80\<close> on
  are copied: CPython escapes the few code points outside ASCII that are not printable,
  which this model of \<open>repr\<close> does not follow.
\<close>

function nat_to_dec :: "nat \<Rightarrow> string" where
  "nat_to_dec n =
     (if n < 10 then [char_of (48 + n)]
      else nat_to_dec (n div 10) @ [char_of (48 + n mod 10)])"
  by pat_completeness auto
termination
  by (relation "measure id") auto

definition int_to_dec :: "int \<Rightarrow> string" where
  "int_to_dec i = (if i < 0 then CHR ''-'' # nat_to_dec (nat (- i)) else nat_to_dec (nat i))"

definition hex_digit :: "nat \<Rightarrow> char" where
  "hex_digit n = ''0123456789abcdef'' ! (n mod 16)"

definition repr_char :: "char \<Rightarrow> char \<Rightarrow> string" where
  "repr_char q c =
     (if c = q \<or> c = CHR 0x5C then [CHR 0x5C, c]
      else if c = CHR 0x09 then [CHR 0x5C, CHR ''t'']
      else if c = CHR 0x0A then [CHR 0x5C, CHR ''n'']
      else if c = CHR 0x0D then [CHR 0x5C, CHR ''r'']
      else if (of_char c :: nat) < 32 \<or> c = CHR 0x7F
        then [CHR 0x5C, CHR ''x'', hex_digit (of_char c div 16), hex_digit (of_char c)]
      else [c])"

definition repr_str :: "string \<Rightarrow> string" where
  "repr_str s =
     (let q = (if CHR 0x27 \<in> set s \<and> CHR 0x22 \<notin> set s then CHR 0x22 else CHR 0x27)
      in q # concat (map (repr_char q) s) @ [q])"

fun join_comma :: "string list \<Rightarrow> string" where
  "join_comma [] = []"
| "join_comma [s] = s"
| "join_comma (s # t # ss) = s @ '', '' @ join_comma (t # ss)"

fun py_repr :: "json \<Rightarrow> string"
  and py_repr_list :: "json list \<Rightarrow> string list"
  and py_repr_items :: "(string \<times> json) list \<Rightarrow> string list" where
  "py_repr JNull = ''None''"
| "py_repr (JBool b) = (if b then ''True'' else ''False'')"
| "py_repr (JInt i) = int_to_dec i"
| "py_repr (JFloat r) = r"
| "py_repr (JStr s) = repr_str s"
| "py_repr (JList vs) = ''['' @ join_comma (py_repr_list vs) @ '']''"
| "py_repr (JObj kvs) = ''{'' @ join_comma (py_repr_items kvs) @ ''}''"
| "py_repr_list [] = []"
| "py_repr_list (v # vs) = py_repr v # py_repr_list vs"
| "py_repr_items [] = []"
| "py_repr_items ((k, v) # kvs) = (repr_str k @ '': '' @ py_repr v) # py_repr_items kvs"

definition py_str :: "json \<Rightarrow> string" where
  "py_str v = (case v of JStr s \<Rightarrow> s | _ \<Rightarrow> py_repr v)"

section \<open>Float arithmetic of the percentage\<close>

text \<open>
  \<^verbatim>\<open>round(verified_users / total_users * 100)\<close> is float arithmetic: \<open>/\<close> on two
  \<open>int\<close>s is the correctly rounded binary64 quotient (\<open>ZeroDivisionError\<close> on a zero
  divisor, \<open>OverflowError\<close> when the quotient is beyond the largest float), \<open>* 100\<close> is
  the binary64 product, and \<open>round\<close> of a float is the nearest \<open>int\<close>, a tie going to
  the even one (\<open>OverflowError\<close> on an infinity, \<open>ValueError\<close> on a NaN).

  A finite float is the rational number it denotes; the sign of a zero is dropped, which
  \<open>round\<close> does not see. \<open>binary64\<close> rounds a rational to the nearest float, ties to
  even: 53 significant bits, least exponent \<open>-1022\<close> with gradual underflow, and
  infinity from \<open>2 ^ 1024\<close> on.
\<close>

datatype py_float = Finite rat | Infinity | NaN

definition ilog2 :: "rat \<Rightarrow> int" where
  \<comment> \<open>\<open>\<lfloor>log\<^sub>2 x\<rfloor>\<close> for \<open>0 < x\<close>\<close>
  "ilog2 x =
     (let d = bitlen (fst (quotient_of x)) - bitlen (snd (quotient_of x))
      in if 2 powi d \<le> x then d else d - 1)"

definition round_half_even :: "rat \<Rightarrow> int" where
  "round_half_even x =
     (let f = \<lfloor>x\<rfloor>; d = x - of_int f
      in if d < 1 / 2 then f else if 1 / 2 < d then f + 1
         else if even f then f else f + 1)"

definition binary64 :: "rat \<Rightarrow> py_float" where
  "binary64 x =
     (if x = 0 then Finite 0
      else let a = \<bar>x\<bar>;
               e = max (ilog2 a) (- 1022);
               ulp = 2 powi (e - 52);
               r = of_int (round_half_even (a / ulp)) * ulp
           in if 2 ^ 1024 \<le> r then Infinity else Finite (sgn x * r))"

definition int_truediv :: "int \<Rightarrow> int \<Rightarrow> py_exception + py_float" where
  "int_truediv a b =
     (if b = 0 then Inl ZeroDivisionError
      else case binary64 (of_int a / of_int b) of
             Finite q \<Rightarrow> Inr (Finite q)
           | _ \<Rightarrow> Inl OverflowError)"

definition float_mul :: "py_float \<Rightarrow> py_float \<Rightarrow> py_float" where
  "float_mul x y =
     (case (x, y) of
        (Finite a, Finite b) \<Rightarrow> binary64 (a * b)
      | (Finite a, Infinity) \<Rightarrow> (if a = 0 then NaN else Infinity)
      | (Infinity, Finite b) \<Rightarrow> (if b = 0 then NaN else Infinity)
      | (Infinity, Infinity) \<Rightarrow> Infinity
      | _ \<Rightarrow> NaN)"

definition py_round :: "py_float \<Rightarrow> py_exception + int" where
  "py_round x =
     (case x of
        Finite q \<Rightarrow> Inr (round_half_even q)
      | Infinity \<Rightarrow> Inl OverflowError
      | NaN \<Rightarrow> Inl ValueError)"

definition percent :: "int \<Rightarrow> int \<Rightarrow> py_exception + int" where
  \<comment> \<open>\<^verbatim>\<open>round(verified_users / total_users * 100)\<close>\<close>
  "percent verified_users total_users =
     (case int_truediv verified_users total_users of
        Inl e \<Rightarrow> Inl e
      | Inr q \<Rightarrow> py_round (float_mul q (Finite 100)))"

text \<open>
  The same expression read on exact numbers, for comparison with \<open>percent\<close>:
  \<open>exact_percent\<close> is the integer nearest to \<open>100 * verified_users / total_users\<close>, a tie
  going to the even one as in Python's \<open>round\<close>.
\<close>

definition exact_percent :: "int \<Rightarrow> int \<Rightarrow> int" where
  "exact_percent verified_users total_users =
     round_half_even (of_int verified_users / of_int total_users * 100)"

section \<open>The spec builders (\<^verbatim>\<open>app/ui_specs.py\<close>)\<close>

text \<open>
  Each builder is one dictionary display, copied key by key. \<open>get_dashboard_spec\<close>
  evaluates the percentage while it builds the dictionary, so an exception of that
  arithmetic is what the call raises; its \<open>recent_users\<close> parameter occurs nowhere in
  the body.
\<close>

definition get_dashboard_spec ::
  "int \<Rightarrow> int \<Rightarrow> (string \<times> json) list list \<Rightarrow> py_exception + json" where
  "get_dashboard_spec total_users verified_users recent_users =
     (case (if total_users > 0 then percent verified_users total_users else Inr 0) of
        Inl e \<Rightarrow> Inl e
      | Inr change \<Rightarrow> Inr (JObj [
          (''type'', JStr ''Page''),
          (''title'', JStr ''Admin Dashboard''),
          (''description'', JStr ''Overview of your application''),
          (''actions'', JList [
            JObj [
              (''type'', JStr ''Button''),
              (''label'', JStr ''Add User''),
              (''variant'', JStr ''primary''),
              (''icon'', JStr ''+''),
              (''onClick'', JObj [
                (''type'', JStr ''openModal''),
                (''modal'', JObj [
                  (''type'', JStr ''Modal''),
                  (''title'', JStr ''Add New User''),
                  (''size'', JStr ''md''),
                  (''children'', JList [
                    JObj [
                      (''type'', JStr ''Form''),
                      (''endpoint'', JStr ''/api/users''),
                      (''method'', JStr ''POST''),
                      (''submitText'', JStr ''Create User''),
                      (''cancelText'', JStr ''Cancel''),
                      (''fields'', JList [
                        JObj [
                          (''type'', JStr ''TextField''),
                          (''name'', JStr ''email''),
                          (''label'', JStr ''Email''),
                          (''inputType'', JStr ''email''),
                          (''required'', JBool True),
                          (''placeholder'', JStr ''user@example.com'')],
                        JObj [
                          (''type'', JStr ''TextField''),
                          (''name'', JStr ''password''),
                          (''label'', JStr ''Password''),
                          (''inputType'', JStr ''password''),
                          (''required'', JBool True)],
                        JObj [
                          (''type'', JStr ''Checkbox''),
                          (''name'', JStr ''email_verified''),
                          (''label'', JStr ''Email Verified''),
                          (''checkboxLabel'', JStr ''Mark email as verified'')]]),
                      (''onSuccess'', JObj [(''type'', JStr ''refresh'')])]])])])]]),
          (''children'', JList [
            JObj [
              (''type'', JStr ''StatsGrid''),
              (''columns'', JInt 4),
              (''items'', JList [
                JObj [
                  (''label'', JStr ''Total Users''),
                  (''value'', JInt total_users),
                  (''icon'', JStr icon_users),
                  (''onClick'', JObj [(''type'', JStr ''navigate''), (''to'', JStr ''/admin/users'')])],
                JObj [
                  (''label'', JStr ''Verified''),
                  (''value'', JInt verified_users),
                  (''icon'', JStr icon_check),
                  (''change'', JInt change),
                  (''changeType'', JStr ''neutral'')],
                JObj [
                  (''label'', JStr ''Unverified''),
                  (''value'', JInt (total_users - verified_users)),
                  (''icon'', JStr icon_hourglass)],
                JObj [
                  (''label'', JStr ''Active Today''),
                  (''value'', JStr em_dash),
                  (''icon'', JStr icon_chart)]])],
            JObj [
              (''type'', JStr ''Card''),
              (''title'', JStr ''Recent Users''),
              (''subtitle'', JStr ''Latest registered users''),
              (''className'', JStr ''mt-6''),
              (''children'', JList [
                JObj [
                  (''type'', JStr ''DataTable''),
                  (''endpoint'', JStr ''/api/users''),
                  (''pagination'', JBool False),
                  (''searchable'', JBool False),
                  (''columns'', JList [
                    JObj [(''key'', JStr ''email''), (''label'', JStr ''Email'')],
                    JObj [
                      (''key'', JStr ''email_verified''),
                      (''label'', JStr ''Verified''),
                      (''type'', JStr ''boolean'')],
                    JObj [
                      (''key'', JStr ''created_at''),
                      (''label'', JStr ''Created''),
                      (''type'', JStr ''datetime'')]]),
                  (''rowActions'', JList [
                    JObj [
                      (''type'', JStr ''Button''),
                      (''label'', JStr ''View''),
                      (''variant'', JStr ''ghost''),
                      (''size'', JStr ''sm''),
                      (''onClick'', JObj [
                        (''type'', JStr ''navigate''),
                        (''to'', JStr ''/admin/users/{email}'')])]]),
                  (''emptyMessage'', JStr ''No users yet'')]]),
              (''footer'', JList [
                JObj [
                  (''type'', JStr ''Link''),
                  (''label'', JStr (''View all users '' @ right_arrow)),
                  (''href'', JStr ''/admin/users'')]])],
            JObj [
              (''type'', JStr ''Card''),
              (''title'', JStr ''Quick Actions''),
              (''className'', JStr ''mt-6''),
              (''children'', JList [
                JObj [
                  (''type'', JStr ''Row''),
                  (''gap'', JInt 12),
                  (''children'', JList [
                    JObj [
                      (''type'', JStr ''Button''),
                      (''label'', JStr ''Export Users''),
                      (''variant'', JStr ''outline''),
                      (''onClick'', JObj [
                        (''type'', JStr ''api''),
                        (''method'', JStr ''GET''),
                        (''endpoint'', JStr ''/api/users/export'')])],
                    JObj [
                      (''type'', JStr ''Button''),
                      (''label'', JStr ''Invite Users''),
                      (''variant'', JStr ''outline''),
                      (''onClick'', JObj [
                        (''type'', JStr ''openModal''),
                        (''modal'', JObj [
                          (''type'', JStr ''Modal''),
                          (''title'', JStr ''Invite Users''),
                          (''children'', JList [
                            JObj [
                              (''type'', JStr ''Text''),
                              (''content'', JStr ''Bulk invite functionality coming soon.''),
                              (''variant'', JStr ''muted'')]])])])],
                    JObj [
                      (''type'', JStr ''Button''),
                      (''label'', JStr ''View Logs''),
                      (''variant'', JStr ''outline''),
                      (''onClick'', JObj [
                        (''type'', JStr ''navigate''),
                        (''to'', JStr ''/admin/logs'')])]])]])]])]))"

definition get_users_list_spec :: json where
  "get_users_list_spec =
     JObj [
       (''type'', JStr ''Page''),
       (''title'', JStr ''Users''),
       (''description'', JStr ''Manage user accounts''),
       (''actions'', JList [
         JObj [
           (''type'', JStr ''Button''),
           (''label'', JStr ''Add User''),
           (''variant'', JStr ''primary''),
           (''icon'', JStr ''+''),
           (''onClick'', JObj [
             (''type'', JStr ''openModal''),
             (''modal'', JObj [
               (''type'', JStr ''Modal''),
               (''title'', JStr ''Add New User''),
               (''size'', JStr ''md''),
               (''children'', JList [
                 JObj [
                   (''type'', JStr ''Form''),
                   (''endpoint'', JStr ''/api/users''),
                   (''method'', JStr ''POST''),
                   (''submitText'', JStr ''Create User''),
                   (''cancelText'', JStr ''Cancel''),
                   (''fields'', JList [
                     JObj [
                       (''type'', JStr ''TextField''),
                       (''name'', JStr ''email''),
                       (''label'', JStr ''Email''),
                       (''inputType'', JStr ''email''),
                       (''required'', JBool True)],
                     JObj [
                       (''type'', JStr ''TextField''),
                       (''name'', JStr ''password''),
                       (''label'', JStr ''Password''),
                       (''inputType'', JStr ''password''),
                       (''required'', JBool True)],
                     JObj [
                       (''type'', JStr ''Checkbox''),
                       (''name'', JStr ''email_verified''),
                       (''checkboxLabel'', JStr ''Mark email as verified'')]]),
                   (''onSuccess'', JObj [(''type'', JStr ''refresh'')])]])])])]]),
       (''children'', JList [
         JObj [
           (''type'', JStr ''Card''),
           (''children'', JList [
             JObj [
               (''type'', JStr ''DataTable''),
               (''endpoint'', JStr ''/api/users''),
               (''pagination'', JBool True),
               (''pageSize'', JInt 20),
               (''searchable'', JBool True),
               (''sortable'', JBool True),
               (''columns'', JList [
                 JObj [
                   (''key'', JStr ''email''),
                   (''label'', JStr ''Email''),
                   (''sortable'', JBool True)],
                 JObj [
                   (''key'', JStr ''email_verified''),
                   (''label'', JStr ''Verified''),
                   (''type'', JStr ''boolean''),
                   (''sortable'', JBool True)],
                 JObj [
                   (''key'', JStr ''two_factor_enabled''),
                   (''label'', JStr ''2FA''),
                   (''type'', JStr ''boolean'')],
                 JObj [
                   (''key'', JStr ''created_at''),
                   (''label'', JStr ''Created''),
                   (''type'', JStr ''datetime''),
                   (''sortable'', JBool True)],
                 JObj [
                   (''key'', JStr ''updated_at''),
                   (''label'', JStr ''Updated''),
                   (''type'', JStr ''datetime'')]]),
               (''rowActions'', JList [
                 JObj [
                   (''type'', JStr ''Button''),
                   (''label'', JStr ''Edit''),
                   (''variant'', JStr ''ghost''),
                   (''size'', JStr ''sm''),
                   (''onClick'', JObj [
                     (''type'', JStr ''navigate''),
                     (''to'', JStr ''/admin/users/{email}'')])],
                 JObj [
                   (''type'', JStr ''Button''),
                   (''label'', JStr ''Delete''),
                   (''variant'', JStr ''danger''),
                   (''size'', JStr ''sm''),
                   (''onClick'', JObj [
                     (''type'', JStr ''api''),
                     (''method'', JStr ''DELETE''),
                     (''endpoint'', JStr ''/api/users/{email}''),
                     (''confirm'', JStr ''Are you sure you want to delete this user?''),
                     (''onSuccess'', JObj [(''type'', JStr ''refresh'')])])]]),
               (''emptyMessage'', JStr ''No users found'')]])]])]"

definition get_user_edit_spec :: "(string \<times> json) list \<Rightarrow> json" where
  "get_user_edit_spec user =
     JObj [
       (''type'', JStr ''Page''),
       (''title'', JStr ''Edit User''),
       (''description'', dict_get user ''email'' (JStr '''')),
       (''actions'', JList [
         JObj [
           (''type'', JStr ''Button''),
           (''label'', JStr ''Back to Users''),
           (''variant'', JStr ''outline''),
           (''onClick'', JObj [(''type'', JStr ''navigate''), (''to'', JStr ''/admin/users'')])]]),
       (''children'', JList [
         JObj [
           (''type'', JStr ''Card''),
           (''title'', JStr ''User Details''),
           (''children'', JList [
             JObj [
               (''type'', JStr ''Form''),
               (''endpoint'', JStr (''/api/users/'' @ py_str (dict_get user ''email'' (JStr '''')))),
               (''method'', JStr ''PUT''),
               (''submitText'', JStr ''Save Changes''),
               (''initialValues'', JObj [
                 (''email_verified'', dict_get user ''email_verified'' (JBool False)),
                 (''two_factor_enabled'', dict_get user ''two_factor_enabled'' (JBool False))]),
               (''fields'', JList [
                 JObj [
                   (''type'', JStr ''TextField''),
                   (''name'', JStr ''email''),
                   (''label'', JStr ''Email''),
                   (''inputType'', JStr ''email''),
                   (''readOnly'', JBool True),
                   (''placeholder'', dict_get user ''email'' (JStr ''''))],
                 JObj [
                   (''type'', JStr ''Checkbox''),
                   (''name'', JStr ''email_verified''),
                   (''label'', JStr ''Email Status''),
                   (''checkboxLabel'', JStr ''Email verified'')],
                 JObj [
                   (''type'', JStr ''Checkbox''),
                   (''name'', JStr ''two_factor_enabled''),
                   (''label'', JStr ''Two-Factor Auth''),
                   (''checkboxLabel'', JStr ''2FA enabled'')]]),
               (''onSuccess'', JObj [
                 (''type'', JStr ''navigate''),
                 (''to'', JStr ''/admin/users'')])]])],
         JObj [
           (''type'', JStr ''Card''),
           (''title'', JStr ''Metadata''),
           (''className'', JStr ''mt-6''),
           (''children'', JList [
             JObj [
               (''type'', JStr ''Row''),
               (''gap'', JInt 24),
               (''children'', JList [
                 JObj [
                   (''type'', JStr ''Column''),
                   (''children'', JList [
                     JObj [
                       (''type'', JStr ''Text''),
                       (''content'', JStr ''Created''),
                       (''variant'', JStr ''small'')],
                     JObj [
                       (''type'', JStr ''Text''),
                       (''content'', dict_get user ''created_at'' (JStr em_dash)),
                       (''variant'', JStr ''body'')]])],
                 JObj [
                   (''type'', JStr ''Column''),
                   (''children'', JList [
                     JObj [
                       (''type'', JStr ''Text''),
                       (''content'', JStr ''Last Updated''),
                       (''variant'', JStr ''small'')],
                     JObj [
                       (''type'', JStr ''Text''),
                       (''content'', dict_get user ''updated_at'' (JStr em_dash)),
                       (''variant'', JStr ''body'')]])]])]])],
         JObj [
           (''type'', JStr ''Card''),
           (''title'', JStr ''Danger Zone''),
           (''className'', JStr ''mt-6''),
           (''children'', JList [
             JObj [
               (''type'', JStr ''Alert''),
               (''variant'', JStr ''warning''),
               (''message'', JStr ''Deleting a user is permanent and cannot be undone.'')],
             JObj [
               (''type'', JStr ''Button''),
               (''label'', JStr ''Delete User''),
               (''variant'', JStr ''danger''),
               (''className'', JStr ''mt-4''),
               (''onClick'', JObj [
                 (''type'', JStr ''api''),
                 (''method'', JStr ''DELETE''),
                 (''endpoint'', JStr (''/api/users/'' @ py_str (dict_get user ''email'' (JStr '''')))),
                 (''confirm'', JStr (''Are you sure you want to delete ''
                    @ py_str (dict_get user ''email'' (JStr ''this user'')) @ ''?'')),
                 (''onSuccess'', JObj [
                   (''type'', JStr ''navigate''),
                   (''to'', JStr ''/admin/users'')])])]])]])]"

section \<open>The node schema\<close>

text \<open>
  A document is read the way the rendering client reads it. A value stands at a
  \<^emph>\<open>node\<close> position when it is the document itself, an entry of a \<open>children\<close>,
  \<open>actions\<close>, \<open>footer\<close>, \<open>rowActions\<close> or \<open>fields\<close> list, or the \<open>modal\<close> of an action;
  at an \<^emph>\<open>action\<close> position when it is the value of \<open>onClick\<close> or \<open>onSuccess\<close>; and
  the entries of a StatsGrid's \<open>items\<close> are items, which carry no \<open>type\<close> but may carry
  an \<open>onClick\<close>. Every other key (\<open>columns\<close>, \<open>initialValues\<close>, \<open>content\<close>,
  \<open>placeholder\<close>, ...) holds data: a column of a DataTable is not a node, and its
  \<open>type\<close> (\<open>boolean\<close>, \<open>datetime\<close>) is a display type. \<open>parts\<close> lists every value
  at such a position, at any depth, with the kind of its position; a value that is not
  a list under a key of node lists, or a list under \<open>modal\<close> or an action key, is
  listed as it stands.
\<close>

datatype kind = UiNode | UiAction | StatItem

definition node_list_keys :: "string list" where
  "node_list_keys = [''children'', ''actions'', ''footer'', ''rowActions'', ''fields'']"

definition action_keys :: "string list" where
  "action_keys = [''onClick'', ''onSuccess'']"

fun parts :: "kind \<Rightarrow> json \<Rightarrow> (kind \<times> json) list"
  and parts_list :: "kind \<Rightarrow> json list \<Rightarrow> (kind \<times> json) list"
  and parts_members :: "(string \<times> json) list \<Rightarrow> (kind \<times> json) list" where
  "parts k (JObj kvs) = (k, JObj kvs) # parts_members kvs"
| "parts k v = [(k, v)]"
| "parts_list k [] = []"
| "parts_list k (v # vs) = parts k v @ parts_list k vs"
| "parts_members [] = []"
| "parts_members ((key, JList vs) # kvs) =
     (if key \<in> set node_list_keys then parts_list UiNode vs
      else if key = ''items'' then parts_list StatItem vs
      else if key = ''modal'' then [(UiNode, JList vs)]
      else if key \<in> set action_keys then [(UiAction, JList vs)]
      else []) @ parts_members kvs"
| "parts_members ((key, v) # kvs) =
     (if key = ''modal'' then parts UiNode v
      else if key \<in> set action_keys then parts UiAction v
      else if key \<in> set node_list_keys then [(UiNode, v)]
      else []) @ parts_members kvs"

definition nodes_of :: "json \<Rightarrow> json list" where
  "nodes_of doc = map snd (filter (\<lambda>p. fst p = UiNode) (parts UiNode doc))"

definition actions_of :: "json \<Rightarrow> json list" where
  "actions_of doc = map snd (filter (\<lambda>p. fst p = UiAction) (parts UiNode doc))"

fun field :: "string \<Rightarrow> json \<Rightarrow> json option" where
  "field k (JObj kvs) = map_of kvs k"
| "field k v = None"

fun entries :: "json option \<Rightarrow> json list" where
  "entries (Some (JList vs)) = vs"
| "entries v = []"

definition has :: "string \<Rightarrow> string \<Rightarrow> json \<Rightarrow> bool" where
  "has k s v = (field k v = Some (JStr s))"

definition registered_node_types :: "string list" where
  "registered_node_types =
     [''Page'', ''Card'', ''Form'', ''DataTable'', ''Button'', ''StatsGrid'', ''Modal'',
      ''TextField'', ''Checkbox'', ''Alert'', ''Text'', ''Row'', ''Column'', ''Link'']"

definition registered_action_types :: "string list" where
  "registered_action_types = [''navigate'', ''openModal'', ''api'', ''refresh'']"

definition typed_in :: "string list \<Rightarrow> json \<Rightarrow> bool" where
  "typed_in ts v = (case field ''type'' v of Some (JStr t) \<Rightarrow> t \<in> set ts | _ \<Rightarrow> False)"

definition named :: "json \<Rightarrow> bool" where
  "named f = (case field ''name'' f of Some (JStr n) \<Rightarrow> n \<noteq> [] | _ \<Rightarrow> False)"

definition form_fields_named :: "json \<Rightarrow> bool" where
  "form_fields_named v =
     (if has ''type'' ''Form'' v then list_all named (entries (field ''fields'' v)) else True)"

definition well_formed :: "json \<Rightarrow> bool" where
  "well_formed doc =
     (list_all (typed_in registered_node_types) (nodes_of doc) \<and>
      list_all (typed_in registered_action_types) (actions_of doc) \<and>
      list_all form_fields_named (nodes_of doc))"

subsection \<open>Reading a document\<close>

text \<open>
  \<open>the_only P xs\<close> is the entry of \<open>xs\<close> that satisfies \<open>P\<close> when there is exactly one.
  \<open>returned\<close> is the document of a call that did not raise.
\<close>

definition the_only :: "('a \<Rightarrow> bool) \<Rightarrow> 'a list \<Rightarrow> 'a option" where
  "the_only P xs = (case filter P xs of [x] \<Rightarrow> Some x | _ \<Rightarrow> None)"

definition returned :: "py_exception + json \<Rightarrow> json option" where
  "returned r = (case r of Inr doc \<Rightarrow> Some doc | Inl e \<Rightarrow> None)"

definition stats_item :: "string \<Rightarrow> json \<Rightarrow> json option" where
  \<comment> \<open>the item of the page's StatsGrid that has the given label\<close>
  "stats_item label doc =
     Option.bind (the_only (has ''type'' ''StatsGrid'') (nodes_of doc))
       (\<lambda>grid. the_only (has ''label'' label) (entries (field ''items'' grid)))"

definition add_user_action :: "json \<Rightarrow> json option" where
  "add_user_action page = the_only (has ''label'' ''Add User'') (entries (field ''actions'' page))"

text \<open>Edits of a document along a path, to state how two documents differ.\<close>

fun update_member :: "string \<Rightarrow> (json \<Rightarrow> json) \<Rightarrow> json \<Rightarrow> json" where
  "update_member k f (JObj kvs) = JObj (map (\<lambda>p. if fst p = k then (k, f (snd p)) else p) kvs)"
| "update_member k f v = v"

fun update_entry :: "nat \<Rightarrow> (json \<Rightarrow> json) \<Rightarrow> json \<Rightarrow> json" where
  "update_entry i f (JList vs) = JList (if i < length vs then vs[i := f (vs ! i)] else vs)"
| "update_entry i f v = v"

fun remove_member :: "string \<Rightarrow> json \<Rightarrow> json" where
  "remove_member k (JObj kvs) = JObj (filter (\<lambda>p. fst p \<noteq> k) kvs)"
| "remove_member k v = v"

definition add_user_form_edit :: "(json \<Rightarrow> json) \<Rightarrow> json \<Rightarrow> json" where
  \<comment> \<open>applies \<open>f\<close> to the \<open>fields\<close> list of the form in an Add User button\<close>
  "add_user_form_edit f =
     update_member ''onClick'' (update_member ''modal'' (update_member ''children''
       (update_entry 0 (update_member ''fields'' f))))"

section \<open>The request handlers (\<^verbatim>\<open>app/main.py\<close>)\<close>

text \<open>
  A handler makes one call to the upstream service through the \<open>httpx\<close> client. The
  call either raises or gives a response with a status code and a body;
  \<^verbatim>\<open>response.json()\<close> is \<open>Some\<close> value when the body is JSON text and raises
  \<open>JSONDecodeError\<close> (a \<open>ValueError\<close>, not an \<open>httpx.HTTPError\<close>) when it is not.
  \<open>HTTPError\<close> stands for any \<open>httpx.HTTPError\<close> raised by the call (timeouts,
  connection failures and the other request errors), with its message;
  \<open>NonHTTPError\<close> for any other exception of the call. The client is the environment
  of a handler: one function from the request path to the outcome for each method.

  A handler returns a value or raises. FastAPI sends a returned value that fits
  the handler's declared return type with status 200, an \<open>HTTPException\<close> with its own
  status code, and answers any other exception with 500. \<open>http_status\<close> is that
  status, of an outcome that has gone through \<open>validate_response\<close> below.
\<close>

datatype client_error = HTTPError string | NonHTTPError string

record response =
  status_code :: int
  json_body :: "json option"

record auth_client =
  client_get :: "string \<Rightarrow> client_error + response"
  client_delete :: "string \<Rightarrow> client_error + response"

text \<open>
  Two stand-ins for the upstream service, in the manner of the mock client of
  \<^verbatim>\<open>tests/test_api.py\<close>: one that answers every request with the same status and
  body, and one whose every call raises a timeout.
\<close>

definition upstream_answers :: "int \<Rightarrow> json option \<Rightarrow> auth_client" where
  "upstream_answers code body =
     \<lparr>client_get = (\<lambda>path. Inr \<lparr>status_code = code, json_body = body\<rparr>),
      client_delete = (\<lambda>path. Inr \<lparr>status_code = code, json_body = body\<rparr>)\<rparr>"

definition upstream_times_out :: auth_client where
  "upstream_times_out =
     \<lparr>client_get = (\<lambda>path. Inl (HTTPError ''timed out'')),
      client_delete = (\<lambda>path. Inl (HTTPError ''timed out''))\<rparr>"

definition http_status :: "py_exception + json \<Rightarrow> int" where
  "http_status r =
     (case r of Inr v \<Rightarrow> 200 | Inl (HTTPException code detail) \<Rightarrow> code | Inl e \<Rightarrow> 500)"

definition ui_user_edit :: "auth_client \<Rightarrow> string \<Rightarrow> py_exception + json" where
  "ui_user_edit client user_id =
     (case client_get client (''/users/'' @ user_id) of
        Inl (HTTPError e) \<Rightarrow> Inl (HTTPException 502 (JStr (''Auth service error: '' @ e)))
      | Inl (NonHTTPError e) \<Rightarrow> Inl (OtherException e)
      | Inr response \<Rightarrow>
          if status_code response \<noteq> 200
          then Inl (HTTPException 404 (JStr ''User not found''))
          else (case json_body response of
                  None \<Rightarrow> Inl JSONDecodeError
                | Some (JObj user) \<Rightarrow> Inr (get_user_edit_spec user)
                | Some v \<Rightarrow> Inl AttributeError))"


definition api_delete_user :: "auth_client \<Rightarrow> string \<Rightarrow> py_exception + json" where
  "api_delete_user client email =
     (case client_delete client (''/users/'' @ email) of
        Inl (HTTPError e) \<Rightarrow> Inl (HTTPException 502 (JStr (''Auth service error: '' @ e)))
      | Inl (NonHTTPError e) \<Rightarrow> Inl (OtherException e)
      | Inr response \<Rightarrow>
          if status_code response \<notin> {200, 204}
          then (case json_body response of
                  None \<Rightarrow> Inl JSONDecodeError
                | Some (JObj d) \<Rightarrow>
                    Inl (HTTPException (status_code response)
                          (dict_get d ''detail'' (JStr ''Delete failed'')))
                | Some v \<Rightarrow> Inl AttributeError)
          else Inr (JObj [(''status'', JStr ''deleted'')]))"

subsection \<open>The declared return types\<close>

text \<open>
  FastAPI takes the return annotation of a handler as its response model: a returned
  value that does not fit the annotation is not sent; the caller gets 500 (a
  \<open>ResponseValidationError\<close>). \<open>ui_user_edit\<close> is declared \<^verbatim>\<open>dict[str, Any]\<close>,
  \<open>api_users\<close> \<^verbatim>\<open>list[dict[str, Any]]\<close> and \<open>api_delete_user\<close> \<^verbatim>\<open>dict[str, str]\<close>. The
  keys of a JSON object are strings already. A value that fits is sent as it is.
  The \<open>_response\<close> functions are what the caller of each route receives, and
  \<open>http_status\<close> of that outcome is the status of the answer.
\<close>

fun is_dict :: "json \<Rightarrow> bool" where
  "is_dict (JObj kvs) = True"
| "is_dict v = False"

fun is_str :: "json \<Rightarrow> bool" where
  "is_str (JStr s) = True"
| "is_str v = False"


definition is_dict_of_str :: "json \<Rightarrow> bool" where
  "is_dict_of_str v = (case v of JObj kvs \<Rightarrow> list_all is_str (map snd kvs) | _ \<Rightarrow> False)"

definition validate_response ::
  "(json \<Rightarrow> bool) \<Rightarrow> py_exception + json \<Rightarrow> py_exception + json" where
  "validate_response declared outcome =
     (case outcome of
        Inl e \<Rightarrow> Inl e
      | Inr v \<Rightarrow> if declared v then Inr v else Inl ResponseValidationError)"

definition ui_user_edit_response :: "auth_client \<Rightarrow> string \<Rightarrow> py_exception + json" where
  "ui_user_edit_response client user_id =
     validate_response is_dict (ui_user_edit client user_id)"


definition api_delete_user_response :: "auth_client \<Rightarrow> string \<Rightarrow> py_exception + json" where
  "api_delete_user_response client email =
     validate_response is_dict_of_str (api_delete_user client email)"

section \<open>Lemmas on the float arithmetic\<close>

lemma two_powi_bitlen:
  assumes "0 < a"
  shows "(2::rat) powi (bitlen a - 1) \<le> of_int a" and "of_int a < (2::rat) powi (bitlen a)"
proof -
  from bitlen_bounds [OF assms]
  have lo: "2 ^ nat (bitlen a - 1) \<le> a" and hi: "a < 2 ^ nat (bitlen a)" by simp_all
  have pos: "1 \<le> bitlen a"
    using assms bitlen_eq_zero_iff [of a] bitlen_nonneg [of a] by linarith
  have "(of_int (2 ^ nat (bitlen a - 1)) :: rat) \<le> of_int a"
    using lo by (simp only: of_int_le_iff)
  then show "(2::rat) powi (bitlen a - 1) \<le> of_int a"
    using pos by (simp add: power_int_def)
  have "(of_int a :: rat) < of_int (2 ^ nat (bitlen a))"
    using hi by (simp only: of_int_less_iff)
  then show "of_int a < (2::rat) powi (bitlen a)"
    using pos by (simp add: power_int_def)
qed

text \<open>\<open>ilog2\<close> is the binary exponent: \<open>2 ^ ilog2 x \<le> x < 2 ^ (ilog2 x + 1)\<close>.\<close>

lemma ilog2_bounds:
  assumes "0 < x"
  shows "2 powi (ilog2 x) \<le> x" and "x < 2 powi (ilog2 x + 1)"
proof -
  obtain a b where ab: "quotient_of x = (a, b)" by force
  have b: "0 < b" using quotient_of_denom_pos [OF ab] .
  have x: "x = of_int a / of_int b" using quotient_of_div [OF ab] .
  have a: "0 < a" using assms b unfolding x by (simp add: zero_less_divide_iff)
  define d where "d = bitlen a - bitlen b"
  have bpos: "(0::rat) < of_int b" using b by simp
  have "x < 2 powi (bitlen a) / 2 powi (bitlen b - 1)"
    unfolding x using a two_powi_bitlen [OF a] two_powi_bitlen [OF b]
    by (intro frac_less) simp_all
  moreover have "(2::rat) powi (bitlen a - (bitlen b - 1)) = 2 powi (bitlen a) / 2 powi (bitlen b - 1)"
    by (rule power_int_diff) simp
  moreover have "bitlen a - (bitlen b - 1) = d + 1"
    by (simp add: d_def)
  ultimately have up: "x < 2 powi (d + 1)"
    by simp
  have "2 powi (bitlen a - 1) / 2 powi (bitlen b) < x"
    unfolding x using bpos two_powi_bitlen [OF a] two_powi_bitlen [OF b]
    by (intro frac_less2) simp_all
  moreover have "(2::rat) powi (bitlen a - 1 - bitlen b) = 2 powi (bitlen a - 1) / 2 powi (bitlen b)"
    by (rule power_int_diff) simp
  moreover have "bitlen a - 1 - bitlen b = d - 1"
    by (simp add: d_def)
  ultimately have lo: "2 powi (d - 1) < x"
    by simp
  have il: "ilog2 x = (if 2 powi d \<le> x then d else d - 1)"
    by (simp add: ilog2_def ab d_def)
  show "2 powi (ilog2 x) \<le> x" using lo by (simp add: il)
  show "x < 2 powi (ilog2 x + 1)" using up by (auto simp add: il)
qed

lemma ilog2_eqI:
  assumes "0 < x" and "2 powi e \<le> x" and "x < 2 powi (e + 1)"
  shows "ilog2 x = e"
proof -
  have lt: "(2::rat) powi m < 2 powi n \<Longrightarrow> m < n" for m n :: int
  proof (rule ccontr)
    assume "(2::rat) powi m < 2 powi n" and "\<not> m < n"
    then have "(2::rat) powi n \<le> 2 powi m"
      by (intro power_int_increasing) simp_all
    with \<open>(2::rat) powi m < 2 powi n\<close> show False by simp
  qed
  have "(2::rat) powi (ilog2 x) < 2 powi (e + 1)"
    using ilog2_bounds(1) [OF assms(1)] assms(3) by simp
  then have "ilog2 x < e + 1" by (rule lt)
  moreover have "(2::rat) powi e < 2 powi (ilog2 x + 1)"
    using ilog2_bounds(2) [OF assms(1)] assms(2) by simp
  then have "e < ilog2 x + 1" by (rule lt)
  ultimately show ?thesis by simp
qed

lemma round_half_even_le: "of_int (round_half_even y) \<le> y + 1 / 2"
  unfolding round_half_even_def Let_def by (auto simp: not_less) linarith+

lemma round_half_even_nonneg: "0 \<le> y \<Longrightarrow> 0 \<le> round_half_even y"
  unfolding round_half_even_def Let_def by (auto simp: not_less)

lemma round_half_even_ge: "y - 1 / 2 \<le> of_int (round_half_even y)"
  unfolding round_half_even_def Let_def by (auto simp: not_less) linarith+

lemma round_half_even_abs: "\<bar>of_int (round_half_even y) - y\<bar> \<le> 1 / 2"
  using round_half_even_le [of y] round_half_even_ge [of y] by linarith

lemma floor_rat_numeral_div: "\<lfloor>numeral a / numeral b :: rat\<rfloor> = numeral a div numeral b"
  using floor_divide_of_int_eq [of "numeral a" "numeral b", where ?'a = rat] by simp

text \<open>
  Rounding a non-negative rational far below \<open>2 ^ 1024\<close> gives a finite float: the
  result is within half a unit in the last place of the argument.
\<close>

lemma binary64_bounded:
  assumes "0 \<le> x" and "2 * x + 1 < 2 ^ 1024"
  shows "\<exists>r. binary64 x = Finite r \<and> 0 \<le> r \<and> r \<le> 2 * x + 1"
proof (cases "x = 0")
  case True
  then show ?thesis by (simp add: binary64_def)
next
  case False
  with assms have x: "0 < x" by simp
  define e where "e = max (ilog2 x) (- 1022)"
  define ulp :: rat where "ulp = 2 powi (e - 52)"
  define r where "r = of_int (round_half_even (x / ulp)) * ulp"
  have ulp_pos: "0 < ulp" by (simp add: ulp_def)
  have "ulp \<le> 2 powi e"
    unfolding ulp_def by (intro power_int_increasing) simp_all
  moreover have "(2::rat) powi e \<le> max x 1"
  proof (cases "ilog2 x \<le> - 1022")
    case True
    then have "e \<le> 0" by (simp add: e_def)
    then have "(2::rat) powi e \<le> 2 powi 0"
      by (intro power_int_increasing) simp_all
    then show ?thesis by simp
  next
    case False
    then have "e = ilog2 x" by (simp add: e_def)
    then show ?thesis using ilog2_bounds(1) [OF x] by simp
  qed
  ultimately have ulp_le: "ulp \<le> x + 1" using x by simp
  have "r \<le> (x / ulp + 1 / 2) * ulp"
    unfolding r_def using round_half_even_le [of "x / ulp"] ulp_pos
    by (intro mult_right_mono) simp_all
  also have "\<dots> = x + ulp / 2"
    using ulp_pos by (simp add: field_simps)
  finally have r_le: "r \<le> 2 * x + 1" using ulp_le x by simp
  have r_ge: "0 \<le> r"
    unfolding r_def using round_half_even_nonneg [of "x / ulp"] x ulp_pos by simp
  have "binary64 x = (if 2 ^ 1024 \<le> r then Infinity else Finite r)"
    using x by (simp add: binary64_def Let_def r_def ulp_def e_def)
  with r_le r_ge assms(2) show ?thesis by auto
qed

text \<open>With \<open>0 \<le> verified_users \<le> total_users\<close> and \<open>0 < total_users\<close> the percentage raises nothing.\<close>

lemma percent_returns:
  assumes "0 \<le> verified_users" and "verified_users \<le> total_users" and "0 < total_users"
  shows "\<exists>c. percent verified_users total_users = Inr c"
proof -
  let ?x = "of_int verified_users / of_int total_users :: rat"
  have x: "0 \<le> ?x" "?x \<le> 1" using assms by simp_all
  have big: "(601::rat) < 2 ^ 1024" by simp
  have "2 * ?x + 1 < 2 ^ 1024"
    using x(2) big by linarith
  from binary64_bounded [OF x(1) this]
  obtain q where q: "binary64 ?x = Finite q" "0 \<le> q" "q \<le> 2 * ?x + 1" by blast
  then have q3: "q \<le> 3" using x by simp
  have "2 * (q * 100) + 1 < 2 ^ 1024"
    using q3 big by linarith
  with binary64_bounded [of "q * 100"] q(2)
  obtain p where p: "binary64 (q * 100) = Finite p" by auto
  show ?thesis
    using assms p q by (simp add: percent_def int_truediv_def float_mul_def py_round_def)
qed

text \<open>
  The test's input: \<open>7 / 10\<close> rounds to \<open>3152519739159347 / 2 ^ 52\<close>, a little below
  \<open>0.7\<close>; its product with \<open>100\<close> lies a little above \<open>70\<close> and rounds to the float \<open>70\<close>.
\<close>

lemma ilog2_7_10: "ilog2 (7 / 10) = - 1"
  by (rule ilog2_eqI) simp_all

lemma binary64_7_10: "binary64 (7 / 10) = Finite (3152519739159347 / 4503599627370496)"
  by (simp add: binary64_def ilog2_7_10 round_half_even_def Let_def floor_rat_numeral_div)

lemma ilog2_70: "ilog2 (78812993478983675 / 1125899906842624) = 6"
  by (rule ilog2_eqI) simp_all

lemma binary64_70: "binary64 (78812993478983675 / 1125899906842624) = Finite 70"
  by (simp add: binary64_def ilog2_70 round_half_even_def Let_def floor_rat_numeral_div)

lemma percent_7_10: "percent 7 10 = Inr 70"
  by (simp add: percent_def int_truediv_def float_mul_def py_round_def binary64_7_10 binary64_70
      round_half_even_def)

text \<open>
  The float result is not always the exactly rounded percentage: 23 of 40 is \<open>57.5\<close>,
  which any rounding to the nearest integer takes to 58, but the float quotient lies
  below \<open>0.575\<close> and the float product below \<open>57.5\<close>, so the code gives 57.
\<close>

lemma ilog2_23_40: "ilog2 (23 / 40) = - 1"
  by (rule ilog2_eqI) simp_all

lemma binary64_23_40: "binary64 (23 / 40) = Finite (2589569785738035 / 4503599627370496)"
  by (simp add: binary64_def ilog2_23_40 round_half_even_def Let_def floor_rat_numeral_div)

lemma ilog2_57: "ilog2 (64739244643450875 / 1125899906842624) = 5"
  by (rule ilog2_eqI) simp_all

lemma binary64_57:
  "binary64 (64739244643450875 / 1125899906842624)
     = Finite (8092405580431359 / 140737488355328)"
  by (simp add: binary64_def ilog2_57 round_half_even_def Let_def floor_rat_numeral_div)

lemma percent_23_40: "percent 23 40 = Inr 57"
  by (simp add: percent_def int_truediv_def float_mul_def py_round_def binary64_23_40
      binary64_57 round_half_even_def floor_rat_numeral_div)

lemma exact_23_40: "round_half_even (23 / 40 * 100) = 58"
  by (simp add: round_half_even_def floor_rat_numeral_div)

text \<open>
  The rounding error: a finite float is within half a unit in the last place of the
  number it rounds, which is at most \<open>2 ^ - 53\<close> times the number (or times 1 below 1).
\<close>

lemma binary64_close:
  assumes "0 \<le> x" and "2 * x + 1 < 2 ^ 1024"
  shows "\<exists>r. binary64 x = Finite r \<and> 0 \<le> r \<and> \<bar>r - x\<bar> \<le> max x 1 / 2 ^ 53"
proof (cases "x = 0")
  case True
  then show ?thesis by (simp add: binary64_def)
next
  case False
  with assms have x: "0 < x" by simp
  define e where "e = max (ilog2 x) (- 1022)"
  define ulp :: rat where "ulp = 2 powi (e - 52)"
  define r where "r = of_int (round_half_even (x / ulp)) * ulp"
  have ulp_pos: "0 < ulp" by (simp add: ulp_def)
  have "(2::rat) powi (e - 52) = 2 powi e / 2 powi 52"
    by (rule power_int_diff) simp
  then have ulp_eq: "ulp = 2 powi e / 2 ^ 52" by (simp add: ulp_def)
  have pe: "(2::rat) powi e \<le> max x 1"
  proof (cases "ilog2 x \<le> - 1022")
    case True
    then have "e \<le> 0" by (simp add: e_def)
    then have "(2::rat) powi e \<le> 2 powi 0"
      by (intro power_int_increasing) simp_all
    then show ?thesis by simp
  next
    case False
    then have "e = ilog2 x" by (simp add: e_def)
    then show ?thesis using ilog2_bounds(1) [OF x] by simp
  qed
  have half: "ulp / 2 \<le> max x 1 / 2 ^ 53"
    using pe by (simp add: ulp_eq field_simps)
  have "\<bar>r - x\<bar> = \<bar>of_int (round_half_even (x / ulp)) - x / ulp\<bar> * ulp"
    using ulp_pos by (simp add: r_def abs_mult [symmetric] field_simps abs_of_pos)
  also have "\<dots> \<le> 1 / 2 * ulp"
    using round_half_even_abs [of "x / ulp"] ulp_pos by (intro mult_right_mono) simp_all
  finally have close: "\<bar>r - x\<bar> \<le> max x 1 / 2 ^ 53" using half by simp
  have "max x 1 / 2 ^ 53 \<le> x + 1"
    using x by (simp add: max_def field_simps)
  with close have r_le: "r \<le> 2 * x + 1" by linarith
  have r_ge: "0 \<le> r"
    unfolding r_def using round_half_even_nonneg [of "x / ulp"] x ulp_pos by simp
  have "binary64 x = (if 2 ^ 1024 \<le> r then Infinity else Finite r)"
    using x by (simp add: binary64_def Let_def r_def ulp_def e_def)
  with r_le r_ge close assms(2) show ?thesis by auto
qed

text \<open>
  The two float roundings move \<open>100 * verified_users / total_users\<close> by at most
  \<open>201 / 2 ^ 53\<close>, and \<open>round\<close> by at most a half more.
\<close>

lemma percent_close:
  assumes "0 \<le> verified_users" and "verified_users \<le> total_users" and "0 < total_users"
  shows "\<exists>c. percent verified_users total_users = Inr c
     \<and> \<bar>of_int c - of_int verified_users / of_int total_users * 100\<bar> \<le> (1 / 2 + 1 / 2 ^ 45 :: rat)"
proof -
  define y :: rat where "y = of_int verified_users / of_int total_users"
  define u :: rat where "u = 1 / 2 ^ 53"
  define w :: rat where "w = 1 / 2 ^ 45"
  have u: "0 < u" "u \<le> 1 / 100" "201 * u \<le> w" by (simp_all add: u_def w_def)
  have y: "0 \<le> y" "y \<le> 1" using assms by (simp_all add: y_def)
  have big: "(601::rat) < 2 ^ 1024" by simp
  have "2 * y + 1 < 2 ^ 1024"
    using y(2) big by linarith
  from binary64_close [OF y(1) this]
  obtain q where q: "binary64 y = Finite q" "0 \<le> q" "\<bar>q - y\<bar> \<le> max y 1 / 2 ^ 53" by blast
  have "max y 1 / 2 ^ 53 = u" using y(2) by (simp add: u_def max_def)
  with q(3) have qy: "\<bar>q - y\<bar> \<le> u" by simp
  then have q101: "q * 100 \<le> 101" using y(2) u(2) by linarith
  have "2 * (q * 100) + 1 < 2 ^ 1024"
    using q101 big by linarith
  with binary64_close [of "q * 100"] q(2)
  obtain p where p: "binary64 (q * 100) = Finite p" "\<bar>p - q * 100\<bar> \<le> max (q * 100) 1 / 2 ^ 53"
    by auto
  have "max (q * 100) 1 \<le> 101" using q101 by simp
  then have "max (q * 100) 1 / 2 ^ 53 \<le> (101 / 2 ^ 53 :: rat)"
    by (intro divide_right_mono) simp_all
  also have "\<dots> = 101 * u" by (simp add: u_def)
  finally have pq: "\<bar>p - q * 100\<bar> \<le> 101 * u" using p(2) by linarith
  have py: "\<bar>p - y * 100\<bar> \<le> w"
    using pq qy u(3) by linarith
  have c: "percent verified_users total_users = Inr (round_half_even p)"
    using assms p q
    by (simp add: percent_def int_truediv_def float_mul_def py_round_def y_def [symmetric])
  have "\<bar>of_int (round_half_even p) - y * 100\<bar> \<le> 1 / 2 + w"
    using round_half_even_abs [of p] py by linarith
  with c show ?thesis unfolding w_def y_def by blast
qed


text \<open>
  The exact percentage is a multiple of \<open>1 / total_users\<close>, so unless it is itself a
  tie it is at least \<open>1 / (2 * total_users)\<close> away from every tie. For totals up to
  \<open>2 ^ 43\<close> that is more than the float error, and the code gives the exactly rounded
  percentage.
\<close>

lemma percent_exact_off_ties:
  assumes "0 \<le> verified_users" and "verified_users \<le> total_users" and "0 < total_users"
    and small: "total_users \<le> 2 ^ 43"
    and no_tie: "(200 * verified_users) mod (2 * total_users) \<noteq> total_users"
    and c: "percent verified_users total_users = Inr c"
  shows "c = exact_percent verified_users total_users"
proof -
  define t :: rat where "t = of_int total_users"
  define x :: rat where "x = of_int verified_users / of_int total_users * 100"
  define f where "f = \<lfloor>x\<rfloor>"
  define d where "d = x - of_int f"
  define w :: rat where "w = 1 / 2 ^ 45"
  have w: "0 < w" "w < 1 / 4" by (simp_all add: w_def)
  have t: "0 < t" "t \<le> 2 ^ 43" using assms(3) small by (simp_all add: t_def of_int_le_numeral_power_cancel_iff)
  have d: "0 \<le> d" "d < 1" unfolding d_def f_def by linarith+
  from percent_close [OF assms(1-3)] c
  have close: "\<bar>of_int c - x\<bar> \<le> 1 / 2 + w" by (simp add: x_def w_def)
  define N where "N = 200 * verified_users - (2 * f + 1) * total_users"
  have "N \<noteq> 0"
  proof
    assume "N = 0"
    then have "200 * verified_users = total_users + f * (2 * total_users)"
      by (simp add: N_def algebra_simps)
    then have "(200 * verified_users) mod (2 * total_users) = total_users mod (2 * total_users)"
      by simp
    with assms(3) no_tie show False by simp
  qed
  then have "1 \<le> \<bar>N\<bar>" by simp
  then have N1: "(1::rat) \<le> \<bar>of_int N\<bar>"
    by (metis of_int_1 of_int_abs of_int_le_iff)
  have xt: "x * t = 100 * of_int verified_users"
    using t(1) by (simp add: x_def t_def)
  have "of_int N = 2 * (100 * of_int verified_users) - (2 * of_int f + 1) * t"
    by (simp add: N_def t_def)
  also have "\<dots> = 2 * (x * t) - (2 * of_int f + 1) * t"
    by (simp only: xt)
  also have "\<dots> = (d - 1 / 2) * (2 * t)"
    by (simp add: d_def algebra_simps)
  finally have "\<bar>of_int N\<bar> = \<bar>d - 1 / 2\<bar> * (2 * t)"
    using t(1) by (simp add: abs_mult)
  with N1 have "1 \<le> \<bar>d - 1 / 2\<bar> * (2 * t)" by simp
  also have "\<dots> \<le> \<bar>d - 1 / 2\<bar> * (2 * 2 ^ 43)"
    using t(2) by (intro mult_left_mono) simp_all
  finally have far: "2 * w \<le> \<bar>d - 1 / 2\<bar>"
    by (simp add: w_def field_simps)
  have xd: "x = of_int f + d" by (simp add: d_def)
  have ex: "exact_percent verified_users total_users
      = (if d < 1 / 2 then f else if 1 / 2 < d then f + 1 else if even f then f else f + 1)"
    unfolding exact_percent_def round_half_even_def Let_def x_def [symmetric]
      f_def [symmetric] d_def [symmetric] by (rule refl)
  show ?thesis
  proof (cases "d < 1 / 2")
    case True
    with far have "d \<le> 1 / 2 - 2 * w" by linarith
    with close xd w d have "of_int c < (of_int (f + 1) :: rat)" "(of_int (f - 1) :: rat) < of_int c"
      by (simp_all add: abs_le_iff)
    then have "c < f + 1" "f - 1 < c" by (simp_all only: of_int_less_iff)
    then show ?thesis using True by (simp add: ex)
  next
    case False
    with far have up: "1 / 2 + 2 * w \<le> d" by linarith
    with close xd w d have "of_int c < (of_int (f + 2) :: rat)" "(of_int f :: rat) < of_int c"
      by (simp_all add: abs_le_iff)
    then have "c < f + 2" "f < c" by (simp_all only: of_int_less_iff)
    moreover have "1 / 2 < d" using up w by linarith
    ultimately show ?thesis by (simp add: ex)
  qed
qed

section \<open>Lemmas on reading documents\<close>

text \<open>A key with no role in the schema contributes nothing, whatever its value is.\<close>

lemma parts_members_data:
  "key \<notin> set node_list_keys \<Longrightarrow> key \<noteq> ''items'' \<Longrightarrow> key \<noteq> ''modal'' \<Longrightarrow>
   key \<notin> set action_keys \<Longrightarrow> parts_members ((key, v) # kvs) = parts_members kvs"
  by (cases v) auto

lemmas schema_defs = well_formed_def nodes_of_def actions_of_def typed_in_def
  registered_node_types_def registered_action_types_def form_fields_named_def named_def has_def
  node_list_keys_def action_keys_def the_only_def

lemma dashboard_returns:
  assumes "0 \<le> verified_users" and "verified_users \<le> total_users"
  shows "\<exists>c. (if 0 < total_users then percent verified_users total_users else Inr 0) = Inr c"
  using percent_returns [OF assms] by (cases "0 < total_users") auto

lemma well_formed_dashboard:
  "get_dashboard_spec total_users verified_users recent_users = Inr doc \<Longrightarrow> well_formed doc"
  by (auto simp add: get_dashboard_spec_def schema_defs split: sum.splits)

lemma well_formed_users_list: "well_formed get_users_list_spec"
  by (simp add: get_users_list_spec_def schema_defs)

lemma well_formed_user_edit: "well_formed (get_user_edit_spec user)"
  by (simp add: get_user_edit_spec_def schema_defs parts_members_data)

text \<open>The predicate does reject: an unregistered type below a registered one.\<close>

lemma well_formed_rejects:
  "\<not> well_formed (JObj [(''type'', JStr ''Page''),
        (''children'', JList [JObj [(''type'', JStr ''Gauge'')]])])"
  by (simp add: schema_defs)

text \<open>The nodes and actions that the traversal finds in each page, in document order.\<close>

lemma dashboard_parts:
  assumes "get_dashboard_spec total_users verified_users recent_users = Inr doc"
  shows "map (field ''type'') (nodes_of doc) =
     map (Some \<circ> JStr) [''Page'', ''Button'', ''Modal'', ''Form'', ''TextField'', ''TextField'',
       ''Checkbox'', ''StatsGrid'', ''Card'', ''DataTable'', ''Button'', ''Link'', ''Card'', ''Row'',
       ''Button'', ''Button'', ''Modal'', ''Text'', ''Button'']"
    and "map (field ''type'') (actions_of doc) =
     map (Some \<circ> JStr) [''openModal'', ''refresh'', ''navigate'', ''navigate'', ''api'',
       ''openModal'', ''navigate'']"
  using assms
  by (auto simp add: get_dashboard_spec_def schema_defs split: sum.splits)

lemma user_edit_parts:
  "map (field ''type'') (nodes_of (get_user_edit_spec user)) =
     map (Some \<circ> JStr) [''Page'', ''Button'', ''Card'', ''Form'', ''TextField'', ''Checkbox'',
       ''Checkbox'', ''Card'', ''Row'', ''Column'', ''Text'', ''Text'', ''Column'', ''Text'', ''Text'',
       ''Card'', ''Alert'', ''Button'']"
  "map (field ''type'') (actions_of (get_user_edit_spec user)) =
     map (Some \<circ> JStr) [''navigate'', ''navigate'', ''api'', ''navigate'']"
  by (simp_all add: get_user_edit_spec_def schema_defs parts_members_data)


lemma users_list_parts:
  "map (field ''type'') (nodes_of get_users_list_spec) =
     map (Some \<circ> JStr) [''Page'', ''Button'', ''Modal'', ''Form'', ''TextField'', ''TextField'',
       ''Checkbox'', ''Card'', ''DataTable'', ''Button'', ''Button'']"
  "map (field ''type'') (actions_of get_users_list_spec) =
     map (Some \<circ> JStr) [''openModal'', ''refresh'', ''navigate'', ''api'', ''refresh'']"
  by (simp_all add: get_users_list_spec_def schema_defs)

section \<open>Lemmas on the declared return types\<close>

text \<open>
  Whatever \<open>ui_user_edit\<close> and \<open>api_delete_user\<close> return fits their declared types, so
  the caller receives the handler's own outcome.
\<close>

lemma is_dict_user_edit: "is_dict (get_user_edit_spec user)"
  by (simp add: get_user_edit_spec_def)

lemma ui_user_edit_response_valid:
  "ui_user_edit_response client user_id = ui_user_edit client user_id"
  by (simp add: ui_user_edit_response_def validate_response_def ui_user_edit_def
      is_dict_user_edit
      split: sum.splits client_error.splits option.splits json.splits)

lemma api_delete_user_response_valid:
  "api_delete_user_response client email = api_delete_user client email"
  by (simp add: api_delete_user_response_def validate_response_def api_delete_user_def
      is_dict_of_str_def
      split: sum.splits client_error.splits option.splits json.splits)

section \<open>The claims\<close>

text \<open>
  C1. Every builder returns a well-formed document. For counts with
  \<open>0 \<le> verified_users \<le> total_users\<close> and any list of recent users the dashboard
  builder returns a document; the users-list builder takes no input; the edit builder
  takes any user record. In each document every node has a \<open>type\<close> among the fourteen
  registered node types, every action (the value of an \<open>onClick\<close> or \<open>onSuccess\<close>, also
  inside modals, row actions and other actions) has a \<open>type\<close> among \<open>navigate\<close>,
  \<open>openModal\<close>, \<open>api\<close> and \<open>refresh\<close>, and every entry of the \<open>fields\<close> of a Form has
  a non-empty \<open>name\<close>.
\<close>

theorem builders_well_formed:
  "(0 \<le> verified_users \<and> verified_users \<le> total_users \<longrightarrow>
      (\<exists>doc. get_dashboard_spec total_users verified_users recent_users = Inr doc
         \<and> well_formed doc))
   \<and> well_formed get_users_list_spec
   \<and> well_formed (get_user_edit_spec user)"
proof (intro conjI impI)
  assume "0 \<le> verified_users \<and> verified_users \<le> total_users"
  then obtain c where
    "(if 0 < total_users then percent verified_users total_users else Inr 0) = Inr c"
    using dashboard_returns by blast
  then obtain doc where "get_dashboard_spec total_users verified_users recent_users = Inr doc"
    by (simp add: get_dashboard_spec_def)
  then show "\<exists>doc. get_dashboard_spec total_users verified_users recent_users = Inr doc
      \<and> well_formed doc"
    using well_formed_dashboard by blast
next
  show "well_formed get_users_list_spec" by (rule well_formed_users_list)
next
  show "well_formed (get_user_edit_spec user)" by (rule well_formed_user_edit)
qed

theorem builders_well_formed_witness:
  "(\<exists>doc. get_dashboard_spec 10 7 [] = Inr doc \<and> well_formed doc)
   \<and> well_formed get_users_list_spec
   \<and> well_formed (get_user_edit_spec [(''email'', JStr ''a@b.com'')])"
  using builders_well_formed [of 7 10 "[]" "[(''email'', JStr ''a@b.com'')]"] by simp

text \<open>
  C2, as stated: the change of the Verified item is the rounded percentage
  \<open>round(verified_users / total_users * 100)\<close>. With 23 verified users of 40 the
  percentage is \<open>57.5\<close>, which rounds to 58 (ties to even, and ties upwards as well), but
  the document says 57: the float quotient and product fall just below the tie.
\<close>

theorem verified_change_not_rounded_percentage:
  "Option.bind (Option.bind (returned (get_dashboard_spec 40 23 [])) (stats_item ''Verified''))
      (field ''change'') = Some (JInt 57)
   \<and> exact_percent 23 40 = 58
   \<and> round (of_int 23 / of_int 40 * 100 :: rat) = 58"
  by (simp add: get_dashboard_spec_def percent_23_40 returned_def stats_item_def schema_defs
      exact_percent_def round_half_even_def round_def floor_rat_numeral_div)

text \<open>
  C2, amended. For \<open>0 \<le> verified_users \<le> total_users\<close> the dashboard builder returns a
  document whose StatsGrid has exactly four items; the item labelled Unverified has
  the value \<open>total_users - verified_users\<close>; the change of the item labelled Verified is
  \<open>0\<close> when \<open>total_users = 0\<close>, and otherwise the float result of
  \<^verbatim>\<open>round(verified_users / total_users * 100)\<close>, an integer within
  \<open>1 / 2 + 2 ^ - 45\<close> of the exact percentage. For totals up to \<open>2 ^ 43\<close> it is the exactly
  rounded percentage whenever the exact percentage is not a tie (not an integer and a
  half); at a tie it is one of the two neighbours. With 10 users of whom 7 are verified,
  Unverified is 3 and the change is 70.
\<close>

theorem stats_grid_items:
  assumes "0 \<le> verified_users" and "verified_users \<le> total_users"
  shows "\<exists>doc grid unverified verified change.
      get_dashboard_spec total_users verified_users recent_users = Inr doc
    \<and> the_only (has ''type'' ''StatsGrid'') (nodes_of doc) = Some grid
    \<and> length (entries (field ''items'' grid)) = 4
    \<and> the_only (has ''label'' ''Unverified'') (entries (field ''items'' grid)) = Some unverified
    \<and> field ''value'' unverified = Some (JInt (total_users - verified_users))
    \<and> the_only (has ''label'' ''Verified'') (entries (field ''items'' grid)) = Some verified
    \<and> field ''change'' verified = Some (JInt change)
    \<and> (if 0 < total_users
        then percent verified_users total_users = Inr change
          \<and> \<bar>of_int change - of_int verified_users / of_int total_users * 100\<bar>
              \<le> (1 / 2 + 1 / 2 ^ 45 :: rat)
          \<and> (total_users \<le> 2 ^ 43
               \<and> (200 * verified_users) mod (2 * total_users) \<noteq> total_users
             \<longrightarrow> change = exact_percent verified_users total_users)
        else change = 0)"
proof -
  obtain c where c:
    "(if 0 < total_users then percent verified_users total_users else Inr 0) = Inr c"
    using dashboard_returns [OF assms] by blast
  have "if 0 < total_users
        then percent verified_users total_users = Inr c
          \<and> \<bar>of_int c - of_int verified_users / of_int total_users * 100\<bar>
              \<le> (1 / 2 + 1 / 2 ^ 45 :: rat)
          \<and> (total_users \<le> 2 ^ 43
               \<and> (200 * verified_users) mod (2 * total_users) \<noteq> total_users
             \<longrightarrow> c = exact_percent verified_users total_users)
        else c = 0"
  proof (cases "0 < total_users")
    case True
    with c have p: "percent verified_users total_users = Inr c" by simp
    from percent_close [OF assms True] p
    have "\<bar>of_int c - of_int verified_users / of_int total_users * 100\<bar>
        \<le> (1 / 2 + 1 / 2 ^ 45 :: rat)" by simp
    moreover have "c = exact_percent verified_users total_users"
      if "total_users \<le> 2 ^ 43"
        and "(200 * verified_users) mod (2 * total_users) \<noteq> total_users"
      using percent_exact_off_ties [OF assms True that p] .
    ultimately show ?thesis using True p by simp
  next
    case False
    with c show ?thesis by simp
  qed
  then show ?thesis
    unfolding get_dashboard_spec_def c by (simp add: schema_defs)
qed

theorem stats_grid_items_witness:
  "\<exists>doc grid unverified verified.
      get_dashboard_spec 10 7 [] = Inr doc
    \<and> the_only (has ''type'' ''StatsGrid'') (nodes_of doc) = Some grid
    \<and> length (entries (field ''items'' grid)) = 4
    \<and> the_only (has ''label'' ''Unverified'') (entries (field ''items'' grid)) = Some unverified
    \<and> field ''value'' unverified = Some (JInt 3)
    \<and> the_only (has ''label'' ''Verified'') (entries (field ''items'' grid)) = Some verified
    \<and> field ''change'' verified = Some (JInt 70)"
  using stats_grid_items [of 7 10 "[]"]
  by (auto simp add: exact_percent_def round_half_even_def)

text \<open>
  C3. With no users at all the dashboard builder raises nothing: the guard
  \<open>total_users > 0\<close> keeps the division from being evaluated, and the change of the
  Verified item is \<open>0\<close>. This holds for every \<open>verified_users\<close> (the claim's \<open>0\<close> among
  them) and every list of recent users.
\<close>

theorem dashboard_zero_users:
  "\<exists>doc grid verified.
      get_dashboard_spec 0 verified_users recent_users = Inr doc
    \<and> the_only (has ''type'' ''StatsGrid'') (nodes_of doc) = Some grid
    \<and> the_only (has ''label'' ''Verified'') (entries (field ''items'' grid)) = Some verified
    \<and> field ''change'' verified = Some (JInt 0)"
  by (simp add: get_dashboard_spec_def schema_defs)

text \<open>
  C4. The users-list page has one DataTable. Its \<open>pagination\<close> is true, its \<open>pageSize\<close>
  is 20, its \<open>searchable\<close> is true, and its row actions are exactly two Buttons,
  labelled Edit and Delete in that order.
\<close>

theorem users_list_table:
  "\<exists>table.
      the_only (has ''type'' ''DataTable'') (nodes_of get_users_list_spec) = Some table
    \<and> field ''pagination'' table = Some (JBool True)
    \<and> field ''pageSize'' table = Some (JInt 20)
    \<and> field ''searchable'' table = Some (JBool True)
    \<and> list_all (has ''type'' ''Button'') (entries (field ''rowActions'' table))
    \<and> map (field ''label'') (entries (field ''rowActions'' table)) =
        [Some (JStr ''Edit''), Some (JStr ''Delete'')]"
  by (simp add: get_users_list_spec_def schema_defs)

text \<open>
  C5. For the record that has only \<open>email = "a@b.com"\<close>, the edit page has one Form,
  whose initial values \<open>email_verified\<close> and \<open>two_factor_enabled\<close> are both false; the
  texts of the Metadata card are Created, a dash, Last Updated, a dash; and the Danger
  Zone card has one Button, Delete User, whose action is an \<open>api\<close> DELETE with the
  address \<open>a@b.com\<close> inside both its endpoint and its confirmation text.
\<close>

theorem user_edit_defaults:
  "\<exists>form card zone button action endpoint confirm.
      the_only (has ''type'' ''Form'')
        (nodes_of (get_user_edit_spec [(''email'', JStr ''a@b.com'')])) = Some form
    \<and> Option.bind (field ''initialValues'' form) (field ''email_verified'') = Some (JBool False)
    \<and> Option.bind (field ''initialValues'' form) (field ''two_factor_enabled'')
        = Some (JBool False)
    \<and> the_only (has ''title'' ''Metadata'')
        (nodes_of (get_user_edit_spec [(''email'', JStr ''a@b.com'')])) = Some card
    \<and> map (field ''content'') (filter (has ''type'' ''Text'') (nodes_of card)) =
        [Some (JStr ''Created''), Some (JStr em_dash),
         Some (JStr ''Last Updated''), Some (JStr em_dash)]
    \<and> the_only (has ''title'' ''Danger Zone'')
        (nodes_of (get_user_edit_spec [(''email'', JStr ''a@b.com'')])) = Some zone
    \<and> the_only (has ''type'' ''Button'') (nodes_of zone) = Some button
    \<and> has ''label'' ''Delete User'' button
    \<and> field ''onClick'' button = Some action
    \<and> has ''type'' ''api'' action
    \<and> has ''method'' ''DELETE'' action
    \<and> field ''endpoint'' action = Some (JStr endpoint)
    \<and> sublist ''a@b.com'' endpoint
    \<and> field ''confirm'' action = Some (JStr confirm)
    \<and> sublist ''a@b.com'' confirm"
  by (simp add: get_user_edit_spec_def schema_defs parts_members_data dict_get_def py_str_def
      sublist_Cons_right)

text \<open>
  C6, as stated: the Add User button of the users-list page is equal to the Add User
  button of the dashboard page. It is not. The dashboard's form gives its \<open>email\<close> field
  a \<open>placeholder\<close> and its \<open>email_verified\<close> checkbox a \<open>label\<close>; the users-list form
  gives neither.
\<close>

theorem add_user_action_differs:
  "Option.bind (returned (get_dashboard_spec 0 0 [])) add_user_action
     \<noteq> add_user_action get_users_list_spec"
  by (simp add: get_dashboard_spec_def get_users_list_spec_def returned_def
      add_user_action_def the_only_def has_def)

text \<open>
  C6, amended. Whatever the dashboard builder is given, when it returns a page the
  two Add User buttons differ in those two members only: the users-list button is the
  dashboard button with the \<open>placeholder\<close> removed from the first field of its form and
  the \<open>label\<close> removed from the third. Button, modal, form, endpoint, method, texts,
  success action, and the types, names and order of the fields are the same.
\<close>

theorem add_user_action_same_but_two_members:
  "get_dashboard_spec total_users verified_users recent_users = Inr doc \<Longrightarrow>
   add_user_action get_users_list_spec =
     map_option
       (add_user_form_edit
          (update_entry 0 (remove_member ''placeholder'')
             \<circ> update_entry 2 (remove_member ''label'')))
       (add_user_action doc)
   \<and> add_user_action doc \<noteq> None"
  by (auto simp add: get_dashboard_spec_def get_users_list_spec_def add_user_action_def
      the_only_def has_def add_user_form_edit_def split: sum.splits)

theorem add_user_action_same_but_two_members_witness:
  "\<exists>doc. get_dashboard_spec 0 0 [] = Inr doc
      \<and> add_user_action get_users_list_spec =
        map_option
          (add_user_form_edit
             (update_entry 0 (remove_member ''placeholder'')
                \<circ> update_entry 2 (remove_member ''label'')))
          (add_user_action doc)
      \<and> add_user_action doc \<noteq> None"
proof -
  obtain doc where doc: "get_dashboard_spec 0 0 [] = Inr doc"
    by (simp add: get_dashboard_spec_def)
  from add_user_action_same_but_two_members [OF doc] doc show ?thesis by blast
qed

text \<open>
  C7, as stated: on every upstream 200 the handler returns the edit page. An upstream
  answer with status 200 carries no record when its body is not JSON, or is JSON but not
  an object. \<^verbatim>\<open>response.json()\<close> then raises \<open>JSONDecodeError\<close>, or
  \<^verbatim>\<open>user.get\<close> raises \<open>AttributeError\<close>; neither is an \<open>httpx.HTTPError\<close>, no page is
  returned and the caller gets 500.
\<close>

theorem ui_user_edit_200_without_record:
  "ui_user_edit_response (upstream_answers 200 None) ''a@b.com'' = Inl JSONDecodeError
   \<and> http_status (ui_user_edit_response (upstream_answers 200 None) ''a@b.com'') = 500
   \<and> ui_user_edit_response (upstream_answers 200 (Some (JList []))) ''a@b.com''
       = Inl AttributeError
   \<and> http_status (ui_user_edit_response (upstream_answers 200 (Some (JList []))) ''a@b.com'')
       = 500"
  by (simp add: ui_user_edit_response_def validate_response_def ui_user_edit_def
      upstream_answers_def http_status_def)

text \<open>
  C7, amended. \<open>GET /ui/users/{id}\<close>. When the upstream lookup answers with a status
  other than 200 the handler raises the 404 \<open>HTTPException\<close> and the caller gets 404; the
  caller gets 502 exactly when the upstream call raised an \<open>httpx.HTTPError\<close> (a
  timeout, a connection failure); and when upstream answers 200 with a JSON object, the
  record, the caller gets with status 200 the edit page built from that record.
\<close>

theorem ui_user_edit_outcomes:
  "(\<forall>response. client_get client (''/users/'' @ user_id) = Inr response
        \<and> status_code response \<noteq> 200 \<longrightarrow>
      ui_user_edit client user_id = Inl (HTTPException 404 (JStr ''User not found''))
      \<and> http_status (ui_user_edit_response client user_id) = 404)
   \<and> (http_status (ui_user_edit_response client user_id) = 502
        \<longleftrightarrow> (\<exists>e. client_get client (''/users/'' @ user_id) = Inl (HTTPError e)))
   \<and> (\<forall>response user. client_get client (''/users/'' @ user_id) = Inr response
        \<and> status_code response = 200 \<and> json_body response = Some (JObj user) \<longrightarrow>
      ui_user_edit_response client user_id = Inr (get_user_edit_spec user)
      \<and> http_status (ui_user_edit_response client user_id) = 200)"
proof (intro conjI allI impI)
  fix response
  assume "client_get client (''/users/'' @ user_id) = Inr response
    \<and> status_code response \<noteq> 200"
  then show "ui_user_edit client user_id = Inl (HTTPException 404 (JStr ''User not found''))"
    and "http_status (ui_user_edit_response client user_id) = 404"
    by (simp_all add: ui_user_edit_response_valid ui_user_edit_def http_status_def)
next
  show "http_status (ui_user_edit_response client user_id) = 502
      \<longleftrightarrow> (\<exists>e. client_get client (''/users/'' @ user_id) = Inl (HTTPError e))"
    by (auto simp add: ui_user_edit_response_valid ui_user_edit_def http_status_def
        split: sum.splits client_error.splits option.splits json.splits)
next
  fix response user
  assume "client_get client (''/users/'' @ user_id) = Inr response
    \<and> status_code response = 200 \<and> json_body response = Some (JObj user)"
  then show "ui_user_edit_response client user_id = Inr (get_user_edit_spec user)"
    and "http_status (ui_user_edit_response client user_id) = 200"
    by (simp_all add: ui_user_edit_response_valid ui_user_edit_def http_status_def)
qed

theorem ui_user_edit_outcomes_witness:
  "ui_user_edit (upstream_answers 500 None) ''a@b.com''
     = Inl (HTTPException 404 (JStr ''User not found''))
   \<and> http_status (ui_user_edit_response (upstream_answers 500 None) ''a@b.com'') = 404
   \<and> http_status (ui_user_edit_response upstream_times_out ''a@b.com'') = 502
   \<and> ui_user_edit_response
        (upstream_answers 200 (Some (JObj [(''email'', JStr ''a@b.com'')]))) ''a@b.com''
     = Inr (get_user_edit_spec [(''email'', JStr ''a@b.com'')])"
  using ui_user_edit_outcomes [of "upstream_answers 500 None" "''a@b.com''"]
    ui_user_edit_outcomes [of upstream_times_out "''a@b.com''"]
    ui_user_edit_outcomes
      [of "upstream_answers 200 (Some (JObj [(''email'', JStr ''a@b.com'')]))" "''a@b.com''"]
  by (simp add: upstream_answers_def upstream_times_out_def)




text \<open>
  C9. \<open>DELETE /api/users/{id}\<close>. The claim: on an upstream status other than 200 and
  204 the handler answers with that status and the upstream's detail, or
  \<open>Delete failed\<close> when upstream gave none. The handler reads the detail with
  \<^verbatim>\<open>response.json().get("detail", "Delete failed")\<close>, so the default is reached only
  when the body is a JSON object. When upstream answers 503 with a body that is not
  JSON, \<^verbatim>\<open>response.json()\<close> raises \<open>JSONDecodeError\<close>, which the handler's
  \<^verbatim>\<open>except httpx.HTTPError\<close> does not catch: the caller gets 500, neither the upstream
  status nor the default message.
\<close>

theorem api_delete_user_error_body_not_json:
  "api_delete_user (upstream_answers 503 None) ''a@b.com'' = Inl JSONDecodeError
   \<and> http_status (api_delete_user (upstream_answers 503 None) ''a@b.com'') = 500"
  by (simp add: api_delete_user_def upstream_answers_def http_status_def)

text \<open>
  What the delete handler does on the inputs where the claim holds: both success
  statuses give the same body, a transport error gives 502, and an error answer whose
  body is a JSON object gives the upstream status with the detail or the default.
\<close>

lemma api_delete_user_outcomes:
  "(\<forall>response. client_delete client (''/users/'' @ email) = Inr response
        \<and> status_code response \<in> {200, 204} \<longrightarrow>
      api_delete_user client email = Inr (JObj [(''status'', JStr ''deleted'')]))
   \<and> (\<forall>e. client_delete client (''/users/'' @ email) = Inl (HTTPError e) \<longrightarrow>
      http_status (api_delete_user client email) = 502)
   \<and> (\<forall>response d. client_delete client (''/users/'' @ email) = Inr response
        \<and> status_code response \<notin> {200, 204} \<and> json_body response = Some (JObj d) \<longrightarrow>
      api_delete_user client email =
        Inl (HTTPException (status_code response) (dict_get d ''detail'' (JStr ''Delete failed''))))"
  by (auto simp add: api_delete_user_def http_status_def)

text \<open>
  C10. The dashboard builder does not read its \<open>recent_users\<close> argument: two calls
  that differ only there give the same outcome. The Recent Users card of a returned
  page holds one DataTable, bound to the endpoint \<open>/api/users\<close>.
\<close>

theorem dashboard_ignores_recent_users:
  "get_dashboard_spec total_users verified_users r1
     = get_dashboard_spec total_users verified_users r2
   \<and> (\<forall>doc. get_dashboard_spec total_users verified_users r1 = Inr doc \<longrightarrow>
        (\<exists>card table.
            the_only (has ''title'' ''Recent Users'') (nodes_of doc) = Some card
          \<and> the_only (has ''type'' ''DataTable'') (nodes_of card) = Some table
          \<and> has ''endpoint'' ''/api/users'' table))"
  by (auto simp add: get_dashboard_spec_def schema_defs split: sum.splits)

theorem dashboard_ignores_recent_users_witness:
  "get_dashboard_spec 10 7 [] = get_dashboard_spec 10 7 [[(''email'', JStr ''a@b.com'')]]
   \<and> (\<exists>doc card table.
          get_dashboard_spec 10 7 [] = Inr doc
        \<and> the_only (has ''title'' ''Recent Users'') (nodes_of doc) = Some card
        \<and> the_only (has ''type'' ''DataTable'') (nodes_of card) = Some table
        \<and> has ''endpoint'' ''/api/users'' table)"
proof -
  obtain doc where doc: "get_dashboard_spec 10 7 [] = Inr doc"
    by (simp add: get_dashboard_spec_def percent_7_10)
  from dashboard_ignores_recent_users [of 10 7 "[]" "[[(''email'', JStr ''a@b.com'')]]"] doc
  show ?thesis by blast
qed

end
